theory Spec2Isabelle
  imports Main "HOL-Library.Multiset" "HOL-Library.Sublist" "HOL-Library.Word"
begin

section \<open>Data model (app.ts, lines 6-15)\<close>

text \<open>
  The string unions \<open>Priority\<close> and \<open>Filter\<close> are datatypes. The interface \<open>Todo\<close> is a
  record; the payload of the remote collection is the same object without \<open>priority\<close>
  (the remote resource does not store it), so \<open>todo\<close> extends \<open>api_todo\<close> by that one field.
  The field \<open>id\<close> is written \<open>id_t\<close>, since \<open>id\<close> is the identity function of HOL. Numbers
  that hold identifiers are integers. A JavaScript string is a sequence of UTF-16 code
  units; \<open>utf16\<close> writes an ASCII literal as such a sequence. The two error messages
  are ASCII literals of the source and stay HOL strings.
\<close>

type_synonym jsstring = "16 word list"

abbreviation utf16 :: "string \<Rightarrow> jsstring" where
  "utf16 cs \<equiv> map of_char cs"

datatype priority = Low | Medium | High

datatype todo_filter = AllF | CompletedF | PendingF

record api_todo =
  id_t :: int
  title :: jsstring
  completed :: bool
  userId :: int

record todo = api_todo +
  priority :: priority

text \<open>The object spread \<open>{ ...todo, priority: p }\<close> of lines 57-60 and 93.\<close>

definition withPriority :: "api_todo \<Rightarrow> priority \<Rightarrow> todo" where
  "withPriority t p =
     \<lparr>id_t = id_t t, title = title t, completed = completed t, userId = userId t,
      priority = p\<rparr>"

section \<open>Component state (app.ts, lines 28-43)\<close>

text \<open>
  One field for each writable signal of the class \<open>App\<close>. The signal \<open>title\<close> is a constant
  that no method writes and is left out.
\<close>

record app =
  todos :: "todo list"
  loading :: bool
  error :: string
  newTodoText :: jsstring
  newTodoPriority :: priority
  currentFilter :: todo_filter
  sortByPriority :: bool
  editingId :: "int option"
  editText :: jsstring
  editPriority :: priority

section \<open>The network boundary\<close>

text \<open>
  Every method performs at most one \<open>fetch\<close>. The requests a method sends are returned
  beside the new state, so that "no network call" is the empty list. What comes back is
  an input of the model: \<open>fetch\<close> rejects (\<open>Rejected\<close>) or resolves with a response that
  has a status code and a body; \<open>response.json()\<close> rejects (\<open>Unparsable\<close>) or resolves
  with a value (\<open>Parsed\<close>). The parsed value is taken at the type the source casts it to;
  for the list request a parsed value that is not an array is \<open>NotArray\<close>, on which the
  call \<open>apiTodos.map\<close> of line 57 throws a TypeError.
\<close>

datatype request =
    GetTodos nat
  | PostTodo jsstring bool priority int
  | PatchCompleted int bool
  | PatchEdit int jsstring priority
  | DeleteTodo int

datatype 'a body = Unparsable | Parsed 'a

datatype 'a fetched = Rejected | Resolved nat "'a body"

datatype load_payload = NotArray | Items "api_todo list"

text \<open>\<open>response.ok\<close>: the status is in the range 200-299.\<close>

definition ok :: "nat \<Rightarrow> bool" where
  "ok st = (200 \<le> st \<and> st \<le> 299)"

section \<open>Library functions the methods call\<close>

text \<open>
  \<open>String.prototype.trim\<close> removes white space and line terminators at both ends. The
  code units it removes are the ECMAScript productions \<open>WhiteSpace\<close> (tab, vertical tab,
  form feed, the byte order mark U+FEFF and the space separators of Unicode: U+0020,
  U+00A0, U+1680, U+2000 to U+200A, U+202F, U+205F, U+3000) and \<open>LineTerminator\<close> (line
  feed, carriage return, U+2028, U+2029). All of them are single code units.
\<close>

definition whiteSpaceUnits :: "16 word list" where
  "whiteSpaceUnits =
     [0x0009, 0x000A, 0x000B, 0x000C, 0x000D, 0x0020, 0x00A0, 0x1680,
      0x2000, 0x2001, 0x2002, 0x2003, 0x2004, 0x2005, 0x2006, 0x2007, 0x2008, 0x2009, 0x200A,
      0x2028, 0x2029, 0x202F, 0x205F, 0x3000, 0xFEFF]"

definition isWhiteSpace :: "16 word \<Rightarrow> bool" where
  "isWhiteSpace c = (c \<in> set whiteSpaceUnits)"

definition trim :: "jsstring \<Rightarrow> jsstring" where
  "trim t = rev (dropWhile isWhiteSpace (rev (dropWhile isWhiteSpace t)))"

text \<open>
  Numbers of line 59. A \<open>double\<close> stands for the non-negative IEEE 754 binary64 number
  \<open>mant * 2 ^ expo\<close>. \<open>Math.random()\<close> is an input of the model; ECMAScript promises a
  number that is at least 0 and less than 1, which is what \<open>isRandom\<close> says: at most 53
  significant bits, an exponent that binary64 has, and a value below 1.
\<close>

record double =
  mant :: nat
  expo :: int

definition isRandom :: "double \<Rightarrow> bool" where
  "isRandom d =
     (mant d < 2 ^ 53 \<and> - 1074 \<le> expo d \<and>
      (mant d = 0 \<or> (expo d < 0 \<and> mant d < 2 ^ nat (- expo d))))"

text \<open>
  \<open>p / 2 ^ k\<close> rounded to the nearest integer, a tie going to the even one: the rounding
  of binary64 arithmetic.
\<close>

definition roundHalfEven :: "nat \<Rightarrow> nat \<Rightarrow> nat" where
  "roundHalfEven p k =
     (let q = p div 2 ^ k; r = p mod 2 ^ k
      in if 2 ^ k < 2 * r \<or> (2 * r = 2 ^ k \<and> odd q) then q + 1 else q)"

text \<open>
  \<open>Math.random() * 3\<close>: the exact product \<open>3 * mant * 2 ^ expo\<close> has at most 55 bits,
  and the result keeps 53 of them, so the last \<open>k\<close> bits are rounded away, where \<open>k\<close> is 0,
  1 or 2. The product of a number below 1 neither overflows nor leaves the exponent
  range.
\<close>

definition timesThree :: "double \<Rightarrow> double" where
  "timesThree d =
     (let p = 3 * mant d;
          k = (if p < 2 ^ 53 then 0 else if p < 2 ^ 54 then 1 else 2)
      in \<lparr>mant = roundHalfEven p k, expo = expo d + int k\<rparr>)"

text \<open>\<open>Math.floor\<close> of a non-negative number, as a natural number.\<close>

definition mathFloor :: "double \<Rightarrow> nat" where
  "mathFloor d =
     (if 0 \<le> expo d then mant d * 2 ^ nat (expo d) else mant d div 2 ^ nat (- expo d))"

text \<open>
  \<open>['low', 'medium', 'high'][Math.floor(Math.random() * 3)]\<close> (line 59). An index
  outside the array gives \<open>undefined\<close> in JavaScript; the index is proved in range below
  for every number that \<open>Math.random\<close> can return.
\<close>

definition randomPriority :: "double \<Rightarrow> priority" where
  "randomPriority u = [Low, Medium, High] ! mathFloor (timesThree u)"

text \<open>
  \<open>apiTodos.map(todo => ...)\<close> of lines 57-60: the callback runs on the elements from
  left to right, and the \<open>i\<close>-th call of \<open>Math.random\<close> returns \<open>rnd i\<close>.
\<close>

fun assignPriorities :: "(nat \<Rightarrow> double) \<Rightarrow> nat \<Rightarrow> api_todo list \<Rightarrow> todo list" where
  "assignPriorities rnd i [] = []"
| "assignPriorities rnd i (t # ts) =
     withPriority t (randomPriority (rnd i)) # assignPriorities rnd (Suc i) ts"

text \<open>
  \<open>Array.prototype.sort\<close> with a comparator (line 190). ECMAScript requires the sort
  to be stable; the model is the stable insertion sort, which puts \<open>a\<close> before the first
  \<open>b\<close> with \<open>cmp a b \<le> 0\<close>.
\<close>

fun insertBy :: "('a \<Rightarrow> 'a \<Rightarrow> int) \<Rightarrow> 'a \<Rightarrow> 'a list \<Rightarrow> 'a list" where
  "insertBy cmp x [] = [x]"
| "insertBy cmp x (y # ys) = (if cmp x y \<le> 0 then x # y # ys else y # insertBy cmp x ys)"

definition sortBy :: "('a \<Rightarrow> 'a \<Rightarrow> int) \<Rightarrow> 'a list \<Rightarrow> 'a list" where
  "sortBy cmp xs = foldr (insertBy cmp) xs []"

section \<open>Load (app.ts, lines 49-69)\<close>

text \<open>
  An async method runs up to its first \<open>await\<close> when it is called and the rest when the
  request settles. \<open>loadTodos_start\<close> is lines 50-51. \<open>loadTodos_try\<close> is the
  \<open>try\<close>/\<open>catch\<close> of lines 53-65 and \<open>loadTodos_settle\<close> adds the \<open>finally\<close> of line 67.
  The status of the response is not read. \<open>loadTodos_run\<close> is one call of the method: the
  state while the request is in flight, and the state once the method has settled.
\<close>

definition loadTodos_start :: "app \<Rightarrow> app" where
  "loadTodos_start s = s\<lparr>loading := True, error := ''''\<rparr>"

fun loadTodos_try :: "(nat \<Rightarrow> double) \<Rightarrow> load_payload fetched \<Rightarrow> app \<Rightarrow> app" where
  "loadTodos_try rnd Rejected s = s\<lparr>error := ''Failed to load todos''\<rparr>"
| "loadTodos_try rnd (Resolved st Unparsable) s = s\<lparr>error := ''Failed to load todos''\<rparr>"
| "loadTodos_try rnd (Resolved st (Parsed NotArray)) s = s\<lparr>error := ''Failed to load todos''\<rparr>"
| "loadTodos_try rnd (Resolved st (Parsed (Items apiTodos))) s =
     s\<lparr>todos := assignPriorities rnd 0 apiTodos\<rparr>"

definition loadTodos_settle :: "(nat \<Rightarrow> double) \<Rightarrow> load_payload fetched \<Rightarrow> app \<Rightarrow> app" where
  "loadTodos_settle rnd r s = (loadTodos_try rnd r s)\<lparr>loading := False\<rparr>"

definition loadTodos_run :: "(nat \<Rightarrow> double) \<Rightarrow> load_payload fetched \<Rightarrow> app \<Rightarrow> app \<times> app" where
  "loadTodos_run rnd r s =
     (let inFlight = loadTodos_start s in (inFlight, loadTodos_settle rnd r inFlight))"

definition loadTodos :: "(nat \<Rightarrow> double) \<Rightarrow> load_payload fetched \<Rightarrow> app \<Rightarrow> app \<times> request list" where
  "loadTodos rnd r s = (snd (loadTodos_run rnd r s), [GetTodos 10])"

section \<open>Create (app.ts, lines 71-105)\<close>

text \<open>
  \<open>addTodo_try\<close> is the \<open>try\<close>/\<open>catch\<close> of lines 77-101 after the request has settled:
  a rejected \<open>fetch\<close> and a rejected \<open>response.json()\<close> reach the \<open>catch\<close>; a response
  that is not ok skips the body of the \<open>if\<close> of line 91 and nothing else happens.
\<close>

fun addTodo_try :: "api_todo fetched \<Rightarrow> app \<Rightarrow> app" where
  "addTodo_try Rejected s = s\<lparr>error := ''Failed to add todo''\<rparr>"
| "addTodo_try (Resolved st b) s =
     (if ok st then
        (case b of
           Unparsable \<Rightarrow> s\<lparr>error := ''Failed to add todo''\<rparr>
         | Parsed createdTodo \<Rightarrow>
             s\<lparr>todos := todos s @ [withPriority createdTodo (newTodoPriority s)],
               newTodoText := utf16 '''',
               newTodoPriority := Medium\<rparr>)
      else s)"

definition addTodo_start :: "app \<Rightarrow> app" where
  "addTodo_start s = s\<lparr>loading := True\<rparr>"

definition addTodo_settle :: "api_todo fetched \<Rightarrow> app \<Rightarrow> app" where
  "addTodo_settle r s = (addTodo_try r s)\<lparr>loading := False\<rparr>"

definition addTodo :: "api_todo fetched \<Rightarrow> app \<Rightarrow> app \<times> request list" where
  "addTodo r s =
     (let text = trim (newTodoText s) in
      if text = [] then (s, [])
      else (addTodo_settle r (addTodo_start s),
            [PostTodo text False (newTodoPriority s) 1]))"

section \<open>Toggle and Delete (app.ts, lines 107-137)\<close>

text \<open>The body of these responses is never read, so its type is left open.\<close>

fun toggleTodo_settle :: "todo \<Rightarrow> 'a fetched \<Rightarrow> app \<Rightarrow> app" where
  "toggleTodo_settle todo Rejected s = s"
| "toggleTodo_settle todo (Resolved st b) s =
     (if ok st then
        s\<lparr>todos := map (\<lambda>t. if id_t t = id_t todo then t\<lparr>completed := \<not> completed t\<rparr> else t)
                       (todos s)\<rparr>
      else s)"

definition toggleTodo :: "todo \<Rightarrow> 'a fetched \<Rightarrow> app \<Rightarrow> app \<times> request list" where
  "toggleTodo todo r s =
     (toggleTodo_settle todo r s, [PatchCompleted (id_t todo) (\<not> completed todo)])"

fun deleteTodo_settle :: "int \<Rightarrow> 'a fetched \<Rightarrow> app \<Rightarrow> app" where
  "deleteTodo_settle i Rejected s = s"
| "deleteTodo_settle i (Resolved st b) s =
     (if ok st then s\<lparr>todos := filter (\<lambda>todo. id_t todo \<noteq> i) (todos s)\<rparr> else s)"

definition deleteTodo :: "int \<Rightarrow> 'a fetched \<Rightarrow> app \<Rightarrow> app \<times> request list" where
  "deleteTodo i r s = (deleteTodo_settle i r s, [DeleteTodo i])"

section \<open>Edit mode (app.ts, lines 139-177)\<close>

definition startEdit :: "todo \<Rightarrow> app \<Rightarrow> app" where
  "startEdit todo s =
     s\<lparr>editingId := Some (id_t todo), editText := title todo, editPriority := priority todo\<rparr>"

definition cancelEdit :: "app \<Rightarrow> app" where
  "cancelEdit s = s\<lparr>editingId := None, editText := utf16 ''''\<rparr>"

fun saveEdit_settle :: "int \<Rightarrow> 'a fetched \<Rightarrow> app \<Rightarrow> app" where
  "saveEdit_settle i Rejected s = s"
| "saveEdit_settle i (Resolved st b) s =
     (if ok st then
        cancelEdit
          (s\<lparr>todos := map (\<lambda>todo. if id_t todo = i
                                   then todo\<lparr>title := editText s, priority := editPriority s\<rparr>
                                   else todo)
                          (todos s)\<rparr>)
      else s)"

text \<open>
  The guard \<open>if (!id) return\<close> of line 152: \<open>!id\<close> holds of \<open>null\<close> and of the number 0.
\<close>

definition saveEdit :: "'a fetched \<Rightarrow> app \<Rightarrow> app \<times> request list" where
  "saveEdit r s =
     (case editingId s of
        None \<Rightarrow> (s, [])
      | Some i \<Rightarrow>
          if i = 0 then (s, [])
          else (saveEdit_settle i r s, [PatchEdit i (editText s) (editPriority s)]))"

section \<open>The derived view (app.ts, lines 179-194)\<close>

fun priorityOrder :: "priority \<Rightarrow> int" where
  "priorityOrder High = 3"
| "priorityOrder Medium = 2"
| "priorityOrder Low = 1"

definition comparePriority :: "todo \<Rightarrow> todo \<Rightarrow> int" where
  "comparePriority a b = priorityOrder (priority b) - priorityOrder (priority a)"

definition filteredAndSortedTodos :: "app \<Rightarrow> todo list" where
  "filteredAndSortedTodos s =
     (let filtered =
            (if currentFilter s = CompletedF then filter (\<lambda>todo. completed todo) (todos s)
             else if currentFilter s = PendingF then filter (\<lambda>todo. \<not> completed todo) (todos s)
             else todos s)
      in if sortByPriority s then sortBy comparePriority filtered else filtered)"


section \<open>The initial state (app.ts, lines 28-43)\<close>

definition initial :: app where
  "initial =
     \<lparr>todos = [], loading = False, error = '''', newTodoText = utf16 '''',
      newTodoPriority = Medium, currentFilter = AllF, sortByPriority = False, editingId = None,
      editText = utf16 '''', editPriority = Medium\<rparr>"

section \<open>Vocabulary of the specification\<close>

text \<open>
  These predicates follow the words of the specification; the methods above do not use
  them. The identifiers of the list, in order.
\<close>

definition ids :: "app \<Rightarrow> int list" where
  "ids s = map id_t (todos s)"

text \<open>A Toggle, Delete or Save Edit fails when the request throws or the response is not ok.\<close>

fun requestFailed :: "'a fetched \<Rightarrow> bool" where
  "requestFailed Rejected = True"
| "requestFailed (Resolved st b) = (\<not> ok st)"

text \<open>A filter is a predicate that selects the items of the derived view.\<close>

fun matchesFilter :: "todo_filter \<Rightarrow> todo \<Rightarrow> bool" where
  "matchesFilter AllF t = True"
| "matchesFilter CompletedF t = completed t"
| "matchesFilter PendingF t = (\<not> completed t)"

text \<open>The priority rank: high is 3, medium is 2, low is 1.\<close>

fun rankOf :: "priority \<Rightarrow> nat" where
  "rankOf High = 3"
| "rankOf Medium = 2"
| "rankOf Low = 1"

text \<open>Non-increasing priority rank, the order of the sorted view.\<close>

abbreviation (input) rankGe :: "todo \<Rightarrow> todo \<Rightarrow> bool" where
  "rankGe a b \<equiv> rankOf (priority b) \<le> rankOf (priority a)"

section \<open>Auxiliary lemmas\<close>

subsection \<open>Trimming\<close>

lemma trim_empty_iff: "trim t = [] \<longleftrightarrow> (\<forall>c\<in>set t. isWhiteSpace c)"
proof
  assume e: "trim t = []"
  show "\<forall>c\<in>set t. isWhiteSpace c"
  proof (rule ccontr)
    assume "\<not> (\<forall>c\<in>set t. isWhiteSpace c)"
    then have ne: "dropWhile isWhiteSpace t \<noteq> []"
      by simp
    then have "\<not> isWhiteSpace (hd (dropWhile isWhiteSpace t))"
      by (rule hd_dropWhile)
    moreover have "hd (dropWhile isWhiteSpace t) \<in> set (rev (dropWhile isWhiteSpace t))"
      using ne by simp
    moreover from e have "\<forall>c\<in>set (rev (dropWhile isWhiteSpace t)). isWhiteSpace c"
      unfolding trim_def by (simp only: rev_is_Nil_conv dropWhile_eq_Nil_conv)
    ultimately show False by blast
  qed
next
  assume "\<forall>c\<in>set t. isWhiteSpace c"
  then have "dropWhile isWhiteSpace t = []"
    by simp
  then show "trim t = []"
    by (simp only: trim_def rev.simps dropWhile.simps)
qed

subsection \<open>Random priorities\<close>

lemma length_assignPriorities: "length (assignPriorities rnd k xs) = length xs"
  by (induction xs arbitrary: k) simp_all

lemma nth_assignPriorities:
  "i < length xs \<Longrightarrow>
   assignPriorities rnd k xs ! i = withPriority (xs ! i) (randomPriority (rnd (k + i)))"
proof (induction xs arbitrary: k i)
  case Nil
  then show ?case by simp
next
  case (Cons x xs)
  show ?case
  proof (cases i)
    case 0
    then show ?thesis by simp
  next
    case (Suc j)
    with Cons.prems have "j < length xs" by simp
    from Cons.IH [OF this, of "Suc k"] Suc show ?thesis by simp
  qed
qed

lemma ids_assignPriorities: "map id_t (assignPriorities rnd k xs) = map id_t xs"
  by (induction xs arbitrary: k) (simp_all add: withPriority_def)

text \<open>
  The index of line 59 is in range: the product of a number below 1 with 3, rounded as
  binary64 rounds, has a floor of at most 2.
\<close>

lemma pow2_split: "k \<le> n \<Longrightarrow> (2::nat) ^ n = 2 ^ k * 2 ^ (n - k)"
  by (metis le_add_diff_inverse power_add)

lemma roundHalfEven_le: "0 < k \<Longrightarrow> roundHalfEven p k \<le> (p + 2 ^ (k - 1)) div 2 ^ k"
proof -
  assume k: "0 < k"
  define h :: nat where "h = 2 ^ (k - 1)"
  have pk: "(2::nat) ^ k = 2 * h"
    using k pow2_split [of 1 k] by (simp add: h_def)
  have hpos: "0 < h" by (simp add: h_def)
  define q r where "q = p div (2 * h)" and "r = p mod (2 * h)"
  have p: "p = q * (2 * h) + r"
    unfolding q_def r_def by (rule div_mult_mod_eq [symmetric])
  have up: "q + 1 \<le> (p + h) div (2 * h)" if "h \<le> r"
  proof -
    have "(q + 1) * (2 * h) \<le> p + h" using p that by (simp add: algebra_simps)
    then show ?thesis using hpos by (simp add: less_eq_div_iff_mult_less_eq)
  qed
  have low: "q \<le> (p + h) div (2 * h)"
    unfolding q_def by (rule div_le_mono) simp
  have "roundHalfEven p k = (if 2 * h < 2 * r \<or> (2 * r = 2 * h \<and> odd q) then q + 1 else q)"
    by (simp add: roundHalfEven_def Let_def pk q_def r_def)
  then have "roundHalfEven p k \<le> (p + h) div (2 * h)"
    using up low by (auto split: if_splits)
  then show ?thesis
    by (simp only: pk h_def [symmetric])
qed

lemma random_index:
  assumes "isRandom d"
  shows "mathFloor (timesThree d) < 3"
proof (cases "mant d = 0")
  case True
  then show ?thesis
    by (simp add: mathFloor_def timesThree_def roundHalfEven_def Let_def)
next
  case False
  define n where "n = nat (- expo d)"
  define m where "m = mant d"
  from assms False have e: "expo d = - int n" and mn: "m < 2 ^ n" and npos: "0 < n"
    by (auto simp: isRandom_def n_def m_def)
  consider (exact) "3 * m < 2 ^ 53" | (one) "2 ^ 53 \<le> 3 * m" "3 * m < 2 ^ 54"
    | (two) "2 ^ 54 \<le> 3 * m"
    by linarith
  then show ?thesis
  proof cases
    case exact
    have "3 * m div 2 ^ n < 3"
      using mn by (simp add: div_less_iff_less_mult)
    with exact e npos show ?thesis
      by (simp add: mathFloor_def timesThree_def roundHalfEven_def Let_def m_def [symmetric])
  next
    case one
    have n2: "2 \<le> n"
    proof (rule ccontr)
      assume "\<not> 2 \<le> n"
      then have "n \<le> 1" by simp
      then have "(2::nat) ^ n \<le> 2 ^ 1" by (rule power_increasing) simp
      with mn one show False by simp
    qed
    define N :: nat where "N = 2 ^ (n - 1)"
    have pn: "(2::nat) ^ n = 2 * N"
      using n2 pow2_split [of 1 n] by (simp add: N_def)
    have "roundHalfEven (3 * m) 1 \<le> (3 * m + 1) div 2"
      using roundHalfEven_le [of 1 "3 * m"] by simp
    also have "\<dots> < 3 * N" using mn pn by linarith
    finally have "roundHalfEven (3 * m) 1 div N < 3"
      by (simp add: div_less_iff_less_mult N_def)
    moreover have "- int n + 1 < 0" using n2 by simp
    moreover have "nat (int n - 1) = n - 1" by simp
    ultimately show ?thesis using one e
      by (simp add: mathFloor_def timesThree_def Let_def m_def [symmetric] N_def)
  next
    case two
    have n3: "3 \<le> n"
    proof (rule ccontr)
      assume "\<not> 3 \<le> n"
      then have "n \<le> 2" by simp
      then have "(2::nat) ^ n \<le> 2 ^ 2" by (rule power_increasing) simp
      with mn two show False by simp
    qed
    define N :: nat where "N = 2 ^ (n - 2)"
    have pn: "(2::nat) ^ n = 4 * N"
      using n3 pow2_split [of 2 n] by (simp add: N_def)
    have "roundHalfEven (3 * m) 2 \<le> (3 * m + 2) div 4"
      using roundHalfEven_le [of 2 "3 * m"] by simp
    also have "\<dots> < 3 * N" using mn pn by linarith
    finally have "roundHalfEven (3 * m) 2 div N < 3"
      by (simp add: div_less_iff_less_mult N_def)
    moreover have "- int n + 2 < 0" using n3 by simp
    moreover have "nat (int n - 2) = n - 2" by simp
    ultimately show ?thesis using two e
      by (simp add: mathFloor_def timesThree_def Let_def m_def [symmetric] N_def)
  qed
qed

text \<open>Load never reads the status of the response.\<close>

lemma loadTodos_ignores_status:
  "loadTodos rnd (Resolved st b) s = loadTodos rnd (Resolved st' b) s"
proof (cases b)
  case Unparsable
  then show ?thesis by (simp add: loadTodos_def loadTodos_run_def loadTodos_settle_def)
next
  case (Parsed v)
  then show ?thesis
    by (cases v) (simp_all add: loadTodos_def loadTodos_run_def loadTodos_settle_def)
qed

subsection \<open>Identifiers under the list updates\<close>

lemma toggle_ids: "ids (fst (toggleTodo x r s)) = ids s"
  by (cases r) (simp_all add: toggleTodo_def ids_def comp_def)

lemma saveEdit_ids: "ids (fst (saveEdit r s)) = ids s"
  by (cases r) (simp_all add: saveEdit_def ids_def comp_def cancelEdit_def split: option.splits)

lemma toggle_flip_twice:
  "map ((\<lambda>t. if id_t t = k then t\<lparr>completed := \<not> completed t\<rparr> else t) \<circ>
        (\<lambda>t. if id_t t = k then t\<lparr>completed := \<not> completed t\<rparr> else t)) ts = ts"
  for ts :: "todo list"
  by (induction ts) simp_all

subsection \<open>The insertion sort\<close>

lemma mset_insertBy: "mset (insertBy cmp x ys) = add_mset x (mset ys)"
  by (induction ys) simp_all

lemma mset_sortBy: "mset (sortBy cmp xs) = mset xs"
  by (induction xs) (simp_all add: sortBy_def mset_insertBy)

lemma set_insertBy: "set (insertBy cmp x ys) = insert x (set ys)"
  by (induction ys) auto

lemma priorityOrder_rankOf: "priorityOrder p = int (rankOf p)"
  by (cases p) simp_all

lemma sorted_insertBy:
  "sorted_wrt rankGe ys \<Longrightarrow> sorted_wrt rankGe (insertBy comparePriority x ys)"
proof (induction ys)
  case Nil
  then show ?case by simp
next
  case (Cons y ys)
  show ?case
  proof (cases "comparePriority x y \<le> 0")
    case True
    then have "rankGe x y" by (simp add: comparePriority_def priorityOrder_rankOf)
    moreover from Cons.prems have "\<forall>z\<in>set ys. rankGe y z" by simp
    ultimately have "\<forall>z\<in>set (y # ys). rankGe x z" by auto
    with Cons.prems True show ?thesis by simp
  next
    case False
    then have "rankGe y x" by (simp add: comparePriority_def priorityOrder_rankOf)
    with Cons.prems Cons.IH False show ?thesis by (auto simp: set_insertBy)
  qed
qed

lemma sorted_sortBy: "sorted_wrt rankGe (sortBy comparePriority xs)"
proof (induction xs)
  case Nil
  then show ?case by (simp add: sortBy_def)
next
  case (Cons x xs)
  then show ?case using sorted_insertBy [of "sortBy comparePriority xs" x]
    by (simp add: sortBy_def)
qed

lemma filter_matchesFilter:
  "filter (matchesFilter AllF) ts = ts"
  "filter (matchesFilter CompletedF) ts = filter (\<lambda>todo. completed todo) ts"
  "filter (matchesFilter PendingF) ts = filter (\<lambda>todo. \<not> completed todo) ts"
  by (simp_all cong: filter_cong)

section \<open>Create\<close>

text \<open>
  C5. A Create whose title text is empty or consists of white space only sends no
  request and returns the state as it was: list, input fields, error flag and loading
  flag.
\<close>

theorem addTodo_blank_noop:
  "\<forall>c\<in>set (newTodoText s). isWhiteSpace c \<Longrightarrow> addTodo r s = (s, [])"
  by (simp add: addTodo_def trim_empty_iff [THEN iffD2])

text \<open>
  C5 at a title of a no-break space, a space and an ideographic space, with a server
  that would have answered 201.
\<close>

theorem addTodo_blank_noop_witness:
  "isWhiteSpace 0x00A0 \<and> isWhiteSpace 0x0020 \<and> isWhiteSpace 0x3000 \<and>
   addTodo (Resolved 201 (Parsed \<lparr>id_t = 201, title = utf16 ''x'', completed = False, userId = 1\<rparr>))
     (initial\<lparr>newTodoText := [0x00A0, 0x0020, 0x3000]\<rparr>) = (initial\<lparr>newTodoText := [0x00A0, 0x0020, 0x3000]\<rparr>, [])"
proof -
  have h: "\<forall>c\<in>set (newTodoText (initial\<lparr>newTodoText := [0x00A0, 0x0020, 0x3000]\<rparr>)). isWhiteSpace c"
    by (simp add: isWhiteSpace_def whiteSpaceUnits_def)
  have w: "isWhiteSpace 0x00A0 \<and> isWhiteSpace 0x0020 \<and> isWhiteSpace 0x3000"
    by (simp add: isWhiteSpace_def whiteSpaceUnits_def)
  from w addTodo_blank_noop [OF h] show ?thesis by simp
qed

text \<open>
  C1, as the code has it. For a Create with a non-empty trimmed title: when the request
  is rejected, or the body of an ok response cannot be parsed, the error flag is set to
  the generic message and the list is unchanged; when the response is not ok, the list
  is unchanged and the error flag keeps the value it had. The loading flag is false
  afterwards in each case.
\<close>

theorem addTodo_failure:
  assumes "trim (newTodoText s) \<noteq> []"
  shows "(let s' = fst (addTodo Rejected s)
          in error s' = ''Failed to add todo'' \<and> todos s' = todos s \<and> \<not> loading s') \<and>
         (ok st \<longrightarrow>
            (let s' = fst (addTodo (Resolved st Unparsable) s)
             in error s' = ''Failed to add todo'' \<and> todos s' = todos s \<and> \<not> loading s')) \<and>
         (\<not> ok st \<longrightarrow>
            (let s' = fst (addTodo (Resolved st b) s)
             in error s' = error s \<and> todos s' = todos s \<and> \<not> loading s'))"
  using assms by (simp add: addTodo_def addTodo_start_def addTodo_settle_def Let_def)

text \<open>C1 as amended, at the title \<open>milk\<close> with the statuses 201 and 500.\<close>

theorem addTodo_failure_witness:
  "trim (newTodoText (initial\<lparr>newTodoText := utf16 ''milk''\<rparr>)) \<noteq> [] \<and> ok 201 \<and> \<not> ok 500 \<and>
   error (fst (addTodo Rejected (initial\<lparr>newTodoText := utf16 ''milk''\<rparr>))) = ''Failed to add todo'' \<and>
   error (fst (addTodo (Resolved 201 Unparsable) (initial\<lparr>newTodoText := utf16 ''milk''\<rparr>)))
     = ''Failed to add todo'' \<and>
   error (fst (addTodo (Resolved 500 Unparsable) (initial\<lparr>newTodoText := utf16 ''milk''\<rparr>)))
     = error (initial\<lparr>newTodoText := utf16 ''milk''\<rparr>) \<and>
   todos (fst (addTodo (Resolved 500 Unparsable) (initial\<lparr>newTodoText := utf16 ''milk''\<rparr>)))
     = todos (initial\<lparr>newTodoText := utf16 ''milk''\<rparr>)"
proof -
  have h: "trim (newTodoText (initial\<lparr>newTodoText := utf16 ''milk''\<rparr>)) \<noteq> []"
    by (simp add: trim_def isWhiteSpace_def whiteSpaceUnits_def)
  have a: "ok 201" and b: "\<not> ok 500"
    by (simp_all add: ok_def)
  from h a b addTodo_failure [OF h, of 201 Unparsable] addTodo_failure [OF h, of 500 Unparsable]
  show ?thesis unfolding Let_def by blast
qed

text \<open>
  C1 as stated fails on a response that is not ok: the title is \<open>milk\<close>, the server
  answers 500, and the error flag is not the generic message afterwards.
\<close>

theorem addTodo_non_ok_counterexample:
  "trim (newTodoText (initial\<lparr>newTodoText := utf16 ''milk''\<rparr>)) \<noteq> [] \<and> \<not> ok 500 \<and>
   error (fst (addTodo (Resolved 500 Unparsable) (initial\<lparr>newTodoText := utf16 ''milk''\<rparr>)))
     \<noteq> ''Failed to add todo''"
  by (simp add: addTodo_def addTodo_start_def addTodo_settle_def Let_def initial_def trim_def
      isWhiteSpace_def whiteSpaceUnits_def ok_def)

section \<open>Load\<close>




text \<open>
  C4. After a Load whose response is an array of \<open>N\<close> items the list has \<open>N\<close> items
  and does not depend on the list before: item \<open>i\<close> is item \<open>i\<close> of the response with
  the element of \<open>['low', 'medium', 'high']\<close> at the index that the \<open>i\<close>-th random number
  gives, and that index is 0, 1 or 2.
\<close>

theorem loadTodos_success:
  assumes "\<forall>i<length apiTodos. isRandom (rnd i)"
  shows "let ts = todos (fst (loadTodos rnd (Resolved st (Parsed (Items apiTodos))) s))
         in length ts = length apiTodos \<and>
            (\<forall>i<length apiTodos.
               mathFloor (timesThree (rnd i)) < 3 \<and>
               ts ! i = withPriority (apiTodos ! i)
                          ([Low, Medium, High] ! mathFloor (timesThree (rnd i))) \<and>
               priority (ts ! i) \<in> {Low, Medium, High})"
proof -
  have ts: "todos (fst (loadTodos rnd (Resolved st (Parsed (Items apiTodos))) s))
            = assignPriorities rnd 0 apiTodos"
    by (simp add: loadTodos_def loadTodos_run_def loadTodos_settle_def Let_def)
  have "mathFloor (timesThree (rnd i)) < 3" if "i < length apiTodos" for i
    using assms that by (simp add: random_index)
  moreover have "assignPriorities rnd 0 apiTodos ! i
      = withPriority (apiTodos ! i) ([Low, Medium, High] ! mathFloor (timesThree (rnd i)))"
    if "i < length apiTodos" for i
    using nth_assignPriorities [OF that, of rnd 0] by (simp add: randomPriority_def)
  moreover have "priority t \<in> {Low, Medium, High}" for t :: todo
    by (cases "priority t") simp_all
  ultimately show ?thesis
    unfolding Let_def ts by (simp add: length_assignPriorities)
qed

text \<open>
  C4 on a response of one item, with the random number \<open>6004799503160661 * 2 ^ -53\<close>:
  three times that number is one unit in the last place below 2 and rounds to 2, so the
  item becomes high.
\<close>

theorem loadTodos_success_witness:
  "isRandom \<lparr>mant = 6004799503160661, expo = - 53\<rparr> \<and>
   mathFloor (timesThree \<lparr>mant = 6004799503160661, expo = - 53\<rparr>) = 2 \<and>
   length (todos (fst (loadTodos (\<lambda>i. \<lparr>mant = 6004799503160661, expo = - 53\<rparr>) (Resolved 200 (Parsed (Items [\<lparr>id_t = 1, title = utf16 ''a'', completed = False, userId = 1\<rparr>]))) initial))) = 1 \<and>
   todos (fst (loadTodos (\<lambda>i. \<lparr>mant = 6004799503160661, expo = - 53\<rparr>) (Resolved 200 (Parsed (Items [\<lparr>id_t = 1, title = utf16 ''a'', completed = False, userId = 1\<rparr>]))) initial)) ! 0
     = \<lparr>id_t = 1, title = utf16 ''a'', completed = False, userId = 1, priority = High\<rparr>"
proof -
  have r: "isRandom \<lparr>mant = 6004799503160661, expo = - 53\<rparr>"
    by (simp add: isRandom_def)
  then have h: "\<forall>i<length [\<lparr>id_t = 1, title = utf16 ''a'', completed = False, userId = 1\<rparr>]. isRandom ((\<lambda>i. \<lparr>mant = 6004799503160661, expo = - 53\<rparr>) i)"
    by simp
  have k: "mathFloor (timesThree \<lparr>mant = 6004799503160661, expo = - 53\<rparr>) = 2"
    by (simp add: mathFloor_def timesThree_def roundHalfEven_def Let_def)
  from r k loadTodos_success [OF h, of 200 initial]
  show ?thesis unfolding Let_def by (simp add: withPriority_def)
qed

section \<open>Uniqueness of the identifiers\<close>

text \<open>
  C2, as the code has it. From a list whose identifiers are pairwise distinct, Toggle,
  Delete and Save Edit lead to such a list again, whatever the server answers; Create
  does when the identifier that the server returns is not in the list; Load does when
  the identifiers of the response are pairwise distinct.
\<close>

theorem ids_distinct_preserved:
  assumes "distinct (ids s)"
  shows "distinct (ids (fst (toggleTodo x r s))) \<and>
         distinct (ids (fst (deleteTodo i r s))) \<and>
         distinct (ids (fst (saveEdit r s))) \<and>
         (id_t c \<notin> set (ids s) \<longrightarrow> distinct (ids (fst (addTodo (Resolved st (Parsed c)) s)))) \<and>
         (distinct (map id_t apiTodos) \<longrightarrow>
            distinct (ids (fst (loadTodos rnd (Resolved st (Parsed (Items apiTodos))) s))))"
proof -
  have "distinct (ids (fst (deleteTodo i r s)))"
    using assms by (cases r) (simp_all add: deleteTodo_def ids_def distinct_map_filter)
  moreover have "distinct (ids (fst (addTodo (Resolved st (Parsed c)) s)))"
    if "id_t c \<notin> set (ids s)"
    using assms that
    by (simp add: addTodo_def addTodo_start_def addTodo_settle_def ids_def Let_def
        withPriority_def)
  moreover have "distinct (ids (fst (loadTodos rnd (Resolved st (Parsed (Items apiTodos))) s)))"
    if "distinct (map id_t apiTodos)"
    using that
    by (simp add: loadTodos_def loadTodos_run_def loadTodos_settle_def ids_def Let_def
        ids_assignPriorities)
  ultimately show ?thesis
    using assms by (simp add: toggle_ids saveEdit_ids)
qed

text \<open>
  C2 as amended, on a list of one item with identifier 1: a Create that the server
  answers with identifier 201, a Load of the identifiers 1 and 2, and a Delete.
\<close>

theorem ids_distinct_preserved_witness:
  "distinct (ids (initial\<lparr>todos := [\<lparr>id_t = 1, title = utf16 ''a'', completed = False, userId = 1, priority = Low\<rparr>], newTodoText := utf16 ''milk''\<rparr>)) \<and>
   id_t \<lparr>id_t = 201, title = utf16 ''milk'', completed = False, userId = 1\<rparr> \<notin> set (ids (initial\<lparr>todos := [\<lparr>id_t = 1, title = utf16 ''a'', completed = False, userId = 1, priority = Low\<rparr>], newTodoText := utf16 ''milk''\<rparr>)) \<and>
   distinct (map id_t [\<lparr>id_t = 1, title = utf16 ''a'', completed = False, userId = 1\<rparr>, \<lparr>id_t = 2, title = utf16 ''b'', completed = True, userId = 1\<rparr>]) \<and>
   distinct (ids (fst (addTodo (Resolved 201 (Parsed \<lparr>id_t = 201, title = utf16 ''milk'', completed = False, userId = 1\<rparr>)) (initial\<lparr>todos := [\<lparr>id_t = 1, title = utf16 ''a'', completed = False, userId = 1, priority = Low\<rparr>], newTodoText := utf16 ''milk''\<rparr>)))) \<and>
   distinct (ids (fst (loadTodos (\<lambda>i. \<lparr>mant = 0, expo = 0\<rparr>) (Resolved 201 (Parsed (Items [\<lparr>id_t = 1, title = utf16 ''a'', completed = False, userId = 1\<rparr>, \<lparr>id_t = 2, title = utf16 ''b'', completed = True, userId = 1\<rparr>]))) (initial\<lparr>todos := [\<lparr>id_t = 1, title = utf16 ''a'', completed = False, userId = 1, priority = Low\<rparr>], newTodoText := utf16 ''milk''\<rparr>)))) \<and>
   distinct (ids (fst (deleteTodo 1 (Resolved 200 Unparsable :: unit fetched) (initial\<lparr>todos := [\<lparr>id_t = 1, title = utf16 ''a'', completed = False, userId = 1, priority = Low\<rparr>], newTodoText := utf16 ''milk''\<rparr>))))"
proof -
  have h: "distinct (ids (initial\<lparr>todos := [\<lparr>id_t = 1, title = utf16 ''a'', completed = False, userId = 1, priority = Low\<rparr>], newTodoText := utf16 ''milk''\<rparr>))"
    by (simp add: ids_def)
  have c: "id_t \<lparr>id_t = 201, title = utf16 ''milk'', completed = False, userId = 1\<rparr> \<notin> set (ids (initial\<lparr>todos := [\<lparr>id_t = 1, title = utf16 ''a'', completed = False, userId = 1, priority = Low\<rparr>], newTodoText := utf16 ''milk''\<rparr>))"
    by (simp add: ids_def)
  have a: "distinct (map id_t [\<lparr>id_t = 1, title = utf16 ''a'', completed = False, userId = 1\<rparr>, \<lparr>id_t = 2, title = utf16 ''b'', completed = True, userId = 1\<rparr>])"
    by simp
  from h c a
    ids_distinct_preserved [OF h, where c = "\<lparr>id_t = 201, title = utf16 ''milk'', completed = False, userId = 1\<rparr>" and st = 201
      and apiTodos = "[\<lparr>id_t = 1, title = utf16 ''a'', completed = False, userId = 1\<rparr>, \<lparr>id_t = 2, title = utf16 ''b'', completed = True, userId = 1\<rparr>]" and rnd = "\<lambda>i. \<lparr>mant = 0, expo = 0\<rparr>" and i = 1 and r = "(Resolved 200 Unparsable :: unit fetched)"]
  show ?thesis by blast
qed

text \<open>
  C2 as stated fails for Create: the list holds one item with identifier 201, the server
  answers the next Create with identifier 201 again, and the list then holds the
  identifier twice.
\<close>

theorem addTodo_duplicate_id_counterexample:
  "distinct (ids (initial\<lparr>todos := [\<lparr>id_t = 201, title = utf16 ''eggs'', completed = False, userId = 1, priority = Medium\<rparr>], newTodoText := utf16 ''milk''\<rparr>)) \<and> ok 201 \<and>
   \<not> distinct (ids (fst (addTodo (Resolved 201 (Parsed \<lparr>id_t = 201, title = utf16 ''milk'', completed = False, userId = 1\<rparr>)) (initial\<lparr>todos := [\<lparr>id_t = 201, title = utf16 ''eggs'', completed = False, userId = 1, priority = Medium\<rparr>], newTodoText := utf16 ''milk''\<rparr>))))"
  by (simp add: addTodo_def addTodo_start_def addTodo_settle_def Let_def initial_def trim_def
      isWhiteSpace_def whiteSpaceUnits_def ok_def ids_def withPriority_def)

section \<open>Toggle\<close>

text \<open>
  C6. A successful Toggle of the item \<open>x\<close> at position \<open>i\<close> of the list keeps the length
  of the list, replaces \<open>x\<close> by \<open>x\<close> with the completed flag negated, leaves every item
  with another identifier and every other field of the state as it was; a second
  successful Toggle of that item gives back the state before the first.
\<close>

theorem toggleTodo_flips:
  assumes "i < length (todos s)" and "ok st" and "ok st'"
  shows "let x = todos s ! i;
             s1 = fst (toggleTodo x (Resolved st b) s);
             s2 = fst (toggleTodo (todos s1 ! i) (Resolved st' b') s1)
         in length (todos s1) = length (todos s) \<and>
            todos s1 ! i = x\<lparr>completed := \<not> completed x\<rparr> \<and>
            (\<forall>j<length (todos s). id_t (todos s ! j) \<noteq> id_t x \<longrightarrow> todos s1 ! j = todos s ! j) \<and>
            s1 = s\<lparr>todos := todos s1\<rparr> \<and>
            s2 = s"
  using assms by (simp add: toggleTodo_def Let_def toggle_flip_twice)

text \<open>C6 on a list of one pending item, both responses 200.\<close>

theorem toggleTodo_flips_witness:
  "0 < length (todos (initial\<lparr>todos := [\<lparr>id_t = 1, title = utf16 ''a'', completed = False, userId = 1, priority = Low\<rparr>]\<rparr>)) \<and> ok 200 \<and>
   todos (fst (toggleTodo \<lparr>id_t = 1, title = utf16 ''a'', completed = False, userId = 1, priority = Low\<rparr> (Resolved 200 Unparsable :: unit fetched) (initial\<lparr>todos := [\<lparr>id_t = 1, title = utf16 ''a'', completed = False, userId = 1, priority = Low\<rparr>]\<rparr>))) ! 0 = \<lparr>id_t = 1, title = utf16 ''a'', completed = True, userId = 1, priority = Low\<rparr> \<and>
   fst (toggleTodo \<lparr>id_t = 1, title = utf16 ''a'', completed = True, userId = 1, priority = Low\<rparr> (Resolved 200 Unparsable :: unit fetched) (fst (toggleTodo \<lparr>id_t = 1, title = utf16 ''a'', completed = False, userId = 1, priority = Low\<rparr> (Resolved 200 Unparsable :: unit fetched) (initial\<lparr>todos := [\<lparr>id_t = 1, title = utf16 ''a'', completed = False, userId = 1, priority = Low\<rparr>]\<rparr>)))) = (initial\<lparr>todos := [\<lparr>id_t = 1, title = utf16 ''a'', completed = False, userId = 1, priority = Low\<rparr>]\<rparr>)"
proof -
  have h: "0 < length (todos (initial\<lparr>todos := [\<lparr>id_t = 1, title = utf16 ''a'', completed = False, userId = 1, priority = Low\<rparr>]\<rparr>))"
    by simp
  have k: "ok 200"
    by (simp add: ok_def)
  from h k toggleTodo_flips [OF h k k, where b = "(Unparsable :: unit body)" and b' = "(Unparsable :: unit body)"]
  show ?thesis unfolding Let_def by auto
qed

section \<open>The derived view\<close>

text \<open>
  C7. With the filter \<open>completed\<close> the view holds exactly the completed items of the
  list, with the filter \<open>pending\<close> exactly the others, with the filter \<open>all\<close> every item
  (each as often as the list holds it); when the sort is disabled the view is the list
  of the selected items in the order of the list.
\<close>

theorem view_filter:
  "(currentFilter s = CompletedF \<longrightarrow>
      mset (filteredAndSortedTodos s) = {#t \<in># mset (todos s). completed t#}) \<and>
   (currentFilter s = PendingF \<longrightarrow>
      mset (filteredAndSortedTodos s) = {#t \<in># mset (todos s). \<not> completed t#}) \<and>
   (currentFilter s = AllF \<longrightarrow>
      mset (filteredAndSortedTodos s) = mset (todos s)) \<and>
   (\<not> sortByPriority s \<longrightarrow>
      filteredAndSortedTodos s = filter (matchesFilter (currentFilter s)) (todos s) \<and>
      subseq (filteredAndSortedTodos s) (todos s))"
  by (cases "currentFilter s")
     (simp_all add: filteredAndSortedTodos_def mset_sortBy filter_matchesFilter Let_def)

text \<open>C7 on a list of a pending and a completed item, under each of the three filters.\<close>

theorem view_filter_witness:
  "currentFilter (initial\<lparr>todos := [\<lparr>id_t = 1, title = utf16 ''a'', completed = False, userId = 1, priority = Low\<rparr>, \<lparr>id_t = 2, title = utf16 ''b'', completed = True, userId = 1, priority = High\<rparr>], currentFilter := CompletedF\<rparr>) = CompletedF \<and> \<not> sortByPriority (initial\<lparr>todos := [\<lparr>id_t = 1, title = utf16 ''a'', completed = False, userId = 1, priority = Low\<rparr>, \<lparr>id_t = 2, title = utf16 ''b'', completed = True, userId = 1, priority = High\<rparr>], currentFilter := CompletedF\<rparr>) \<and>
   currentFilter (initial\<lparr>todos := [\<lparr>id_t = 1, title = utf16 ''a'', completed = False, userId = 1, priority = Low\<rparr>, \<lparr>id_t = 2, title = utf16 ''b'', completed = True, userId = 1, priority = High\<rparr>], currentFilter := PendingF\<rparr>) = PendingF \<and> \<not> sortByPriority (initial\<lparr>todos := [\<lparr>id_t = 1, title = utf16 ''a'', completed = False, userId = 1, priority = Low\<rparr>, \<lparr>id_t = 2, title = utf16 ''b'', completed = True, userId = 1, priority = High\<rparr>], currentFilter := PendingF\<rparr>) \<and>
   currentFilter (initial\<lparr>todos := [\<lparr>id_t = 1, title = utf16 ''a'', completed = False, userId = 1, priority = Low\<rparr>, \<lparr>id_t = 2, title = utf16 ''b'', completed = True, userId = 1, priority = High\<rparr>]\<rparr>) = AllF \<and> \<not> sortByPriority (initial\<lparr>todos := [\<lparr>id_t = 1, title = utf16 ''a'', completed = False, userId = 1, priority = Low\<rparr>, \<lparr>id_t = 2, title = utf16 ''b'', completed = True, userId = 1, priority = High\<rparr>]\<rparr>) \<and>
   filteredAndSortedTodos (initial\<lparr>todos := [\<lparr>id_t = 1, title = utf16 ''a'', completed = False, userId = 1, priority = Low\<rparr>, \<lparr>id_t = 2, title = utf16 ''b'', completed = True, userId = 1, priority = High\<rparr>], currentFilter := CompletedF\<rparr>) = [\<lparr>id_t = 2, title = utf16 ''b'', completed = True, userId = 1, priority = High\<rparr>] \<and>
   filteredAndSortedTodos (initial\<lparr>todos := [\<lparr>id_t = 1, title = utf16 ''a'', completed = False, userId = 1, priority = Low\<rparr>, \<lparr>id_t = 2, title = utf16 ''b'', completed = True, userId = 1, priority = High\<rparr>], currentFilter := PendingF\<rparr>) = [\<lparr>id_t = 1, title = utf16 ''a'', completed = False, userId = 1, priority = Low\<rparr>] \<and>
   filteredAndSortedTodos (initial\<lparr>todos := [\<lparr>id_t = 1, title = utf16 ''a'', completed = False, userId = 1, priority = Low\<rparr>, \<lparr>id_t = 2, title = utf16 ''b'', completed = True, userId = 1, priority = High\<rparr>]\<rparr>) = [\<lparr>id_t = 1, title = utf16 ''a'', completed = False, userId = 1, priority = Low\<rparr>, \<lparr>id_t = 2, title = utf16 ''b'', completed = True, userId = 1, priority = High\<rparr>]"
proof -
  have c: "currentFilter (initial\<lparr>todos := [\<lparr>id_t = 1, title = utf16 ''a'', completed = False, userId = 1, priority = Low\<rparr>, \<lparr>id_t = 2, title = utf16 ''b'', completed = True, userId = 1, priority = High\<rparr>], currentFilter := CompletedF\<rparr>) = CompletedF \<and> \<not> sortByPriority (initial\<lparr>todos := [\<lparr>id_t = 1, title = utf16 ''a'', completed = False, userId = 1, priority = Low\<rparr>, \<lparr>id_t = 2, title = utf16 ''b'', completed = True, userId = 1, priority = High\<rparr>], currentFilter := CompletedF\<rparr>)"
    by (simp add: initial_def)
  have p: "currentFilter (initial\<lparr>todos := [\<lparr>id_t = 1, title = utf16 ''a'', completed = False, userId = 1, priority = Low\<rparr>, \<lparr>id_t = 2, title = utf16 ''b'', completed = True, userId = 1, priority = High\<rparr>], currentFilter := PendingF\<rparr>) = PendingF \<and> \<not> sortByPriority (initial\<lparr>todos := [\<lparr>id_t = 1, title = utf16 ''a'', completed = False, userId = 1, priority = Low\<rparr>, \<lparr>id_t = 2, title = utf16 ''b'', completed = True, userId = 1, priority = High\<rparr>], currentFilter := PendingF\<rparr>)"
    by (simp add: initial_def)
  have a: "currentFilter (initial\<lparr>todos := [\<lparr>id_t = 1, title = utf16 ''a'', completed = False, userId = 1, priority = Low\<rparr>, \<lparr>id_t = 2, title = utf16 ''b'', completed = True, userId = 1, priority = High\<rparr>]\<rparr>) = AllF \<and> \<not> sortByPriority (initial\<lparr>todos := [\<lparr>id_t = 1, title = utf16 ''a'', completed = False, userId = 1, priority = Low\<rparr>, \<lparr>id_t = 2, title = utf16 ''b'', completed = True, userId = 1, priority = High\<rparr>]\<rparr>)"
    by (simp add: initial_def)
  from c p a view_filter [of "(initial\<lparr>todos := [\<lparr>id_t = 1, title = utf16 ''a'', completed = False, userId = 1, priority = Low\<rparr>, \<lparr>id_t = 2, title = utf16 ''b'', completed = True, userId = 1, priority = High\<rparr>], currentFilter := CompletedF\<rparr>)"] view_filter [of "(initial\<lparr>todos := [\<lparr>id_t = 1, title = utf16 ''a'', completed = False, userId = 1, priority = Low\<rparr>, \<lparr>id_t = 2, title = utf16 ''b'', completed = True, userId = 1, priority = High\<rparr>], currentFilter := PendingF\<rparr>)"] view_filter [of "(initial\<lparr>todos := [\<lparr>id_t = 1, title = utf16 ''a'', completed = False, userId = 1, priority = Low\<rparr>, \<lparr>id_t = 2, title = utf16 ''b'', completed = True, userId = 1, priority = High\<rparr>]\<rparr>)"]
  show ?thesis by simp
qed

text \<open>
  C8. When the sort by priority is enabled, the view is in non-increasing order of
  priority rank, where high has rank 3, medium rank 2 and low rank 1, and it is a
  permutation of the items that the filter selects.
\<close>

theorem view_sorted:
  assumes "sortByPriority s"
  shows "sorted_wrt (\<lambda>a b. rankOf (priority b) \<le> rankOf (priority a))
           (filteredAndSortedTodos s) \<and>
         mset (filteredAndSortedTodos s)
           = mset (filter (matchesFilter (currentFilter s)) (todos s)) \<and>
         rankOf High = 3 \<and> rankOf Medium = 2 \<and> rankOf Low = 1"
  using assms
  by (cases "currentFilter s")
     (simp_all add: filteredAndSortedTodos_def mset_sortBy sorted_sortBy filter_matchesFilter
        Let_def)

text \<open>
  C8 on a list of a low, a high and a medium item: the view is the high, the medium and
  then the low item.
\<close>

theorem view_sorted_witness:
  "sortByPriority (initial\<lparr>todos := [\<lparr>id_t = 1, title = utf16 ''a'', completed = False, userId = 1, priority = Low\<rparr>, \<lparr>id_t = 2, title = utf16 ''b'', completed = True, userId = 1, priority = High\<rparr>, \<lparr>id_t = 3, title = utf16 ''c'', completed = False, userId = 1, priority = Medium\<rparr>], sortByPriority := True\<rparr>) \<and>
   filteredAndSortedTodos (initial\<lparr>todos := [\<lparr>id_t = 1, title = utf16 ''a'', completed = False, userId = 1, priority = Low\<rparr>, \<lparr>id_t = 2, title = utf16 ''b'', completed = True, userId = 1, priority = High\<rparr>, \<lparr>id_t = 3, title = utf16 ''c'', completed = False, userId = 1, priority = Medium\<rparr>], sortByPriority := True\<rparr>) = [\<lparr>id_t = 2, title = utf16 ''b'', completed = True, userId = 1, priority = High\<rparr>, \<lparr>id_t = 3, title = utf16 ''c'', completed = False, userId = 1, priority = Medium\<rparr>, \<lparr>id_t = 1, title = utf16 ''a'', completed = False, userId = 1, priority = Low\<rparr>] \<and>
   sorted_wrt (\<lambda>a b. rankOf (priority b) \<le> rankOf (priority a)) [\<lparr>id_t = 2, title = utf16 ''b'', completed = True, userId = 1, priority = High\<rparr>, \<lparr>id_t = 3, title = utf16 ''c'', completed = False, userId = 1, priority = Medium\<rparr>, \<lparr>id_t = 1, title = utf16 ''a'', completed = False, userId = 1, priority = Low\<rparr>] \<and>
   mset [\<lparr>id_t = 2, title = utf16 ''b'', completed = True, userId = 1, priority = High\<rparr>, \<lparr>id_t = 3, title = utf16 ''c'', completed = False, userId = 1, priority = Medium\<rparr>, \<lparr>id_t = 1, title = utf16 ''a'', completed = False, userId = 1, priority = Low\<rparr>] = mset [\<lparr>id_t = 1, title = utf16 ''a'', completed = False, userId = 1, priority = Low\<rparr>, \<lparr>id_t = 2, title = utf16 ''b'', completed = True, userId = 1, priority = High\<rparr>, \<lparr>id_t = 3, title = utf16 ''c'', completed = False, userId = 1, priority = Medium\<rparr>]"
proof -
  have h: "sortByPriority (initial\<lparr>todos := [\<lparr>id_t = 1, title = utf16 ''a'', completed = False, userId = 1, priority = Low\<rparr>, \<lparr>id_t = 2, title = utf16 ''b'', completed = True, userId = 1, priority = High\<rparr>, \<lparr>id_t = 3, title = utf16 ''c'', completed = False, userId = 1, priority = Medium\<rparr>], sortByPriority := True\<rparr>)"
    by simp
  have v: "filteredAndSortedTodos (initial\<lparr>todos := [\<lparr>id_t = 1, title = utf16 ''a'', completed = False, userId = 1, priority = Low\<rparr>, \<lparr>id_t = 2, title = utf16 ''b'', completed = True, userId = 1, priority = High\<rparr>, \<lparr>id_t = 3, title = utf16 ''c'', completed = False, userId = 1, priority = Medium\<rparr>], sortByPriority := True\<rparr>) = [\<lparr>id_t = 2, title = utf16 ''b'', completed = True, userId = 1, priority = High\<rparr>, \<lparr>id_t = 3, title = utf16 ''c'', completed = False, userId = 1, priority = Medium\<rparr>, \<lparr>id_t = 1, title = utf16 ''a'', completed = False, userId = 1, priority = Low\<rparr>]"
    by (simp add: filteredAndSortedTodos_def sortBy_def comparePriority_def initial_def)
  from h v view_sorted [OF h] show ?thesis
    by (simp add: initial_def)
qed

section \<open>Failures of Toggle, Delete and Save Edit\<close>

text \<open>
  C9. When the request of a Toggle, a Delete or a Save Edit throws or the response is
  not ok, the state afterwards is the state before: the list and the error string are
  unchanged. A Delete that the server answers with 404 leaves the state unchanged, and
  a Delete of an identifier that is not in the list leaves the list unchanged whatever
  the server answers.
\<close>

theorem silent_failures:
  assumes "requestFailed r"
  shows "fst (toggleTodo x r s) = s \<and>
         fst (deleteTodo i r s) = s \<and>
         fst (saveEdit r s) = s \<and>
         fst (deleteTodo i (Resolved 404 b) s) = s \<and>
         (i \<notin> set (ids s) \<longrightarrow> todos (fst (deleteTodo i r' s)) = todos s)"
proof -
  have "todos (fst (deleteTodo i r' s)) = todos s" if "i \<notin> set (ids s)"
  proof -
    from that have "filter (\<lambda>todo. id_t todo \<noteq> i) (todos s) = todos s"
      by (auto simp: ids_def filter_id_conv)
    then show ?thesis by (cases r') (simp_all add: deleteTodo_def)
  qed
  moreover have "fst (deleteTodo i (Resolved 404 b) s) = s"
    by (simp add: deleteTodo_def ok_def)
  moreover from assms have "fst (toggleTodo x r s) = s" "fst (deleteTodo i r s) = s"
      "fst (saveEdit r s) = s"
    by (cases r; simp add: toggleTodo_def deleteTodo_def saveEdit_def split: option.splits)+
  ultimately show ?thesis by simp
qed

text \<open>
  C9 on a list of one item under edit, with a 404 for each of the three requests and a
  Delete of the identifier 7, which the list does not hold.
\<close>

theorem silent_failures_witness:
  "requestFailed (Resolved 404 Unparsable :: unit fetched) \<and> 7 \<notin> set (ids (initial\<lparr>todos := [\<lparr>id_t = 1, title = utf16 ''a'', completed = False, userId = 1, priority = Low\<rparr>], editingId := Some 1\<rparr>)) \<and>
   fst (toggleTodo \<lparr>id_t = 1, title = utf16 ''a'', completed = False, userId = 1, priority = Low\<rparr> (Resolved 404 Unparsable :: unit fetched) (initial\<lparr>todos := [\<lparr>id_t = 1, title = utf16 ''a'', completed = False, userId = 1, priority = Low\<rparr>], editingId := Some 1\<rparr>)) = (initial\<lparr>todos := [\<lparr>id_t = 1, title = utf16 ''a'', completed = False, userId = 1, priority = Low\<rparr>], editingId := Some 1\<rparr>) \<and>
   fst (deleteTodo 7 (Resolved 404 Unparsable :: unit fetched) (initial\<lparr>todos := [\<lparr>id_t = 1, title = utf16 ''a'', completed = False, userId = 1, priority = Low\<rparr>], editingId := Some 1\<rparr>)) = (initial\<lparr>todos := [\<lparr>id_t = 1, title = utf16 ''a'', completed = False, userId = 1, priority = Low\<rparr>], editingId := Some 1\<rparr>) \<and>
   fst (saveEdit (Resolved 404 Unparsable :: unit fetched) (initial\<lparr>todos := [\<lparr>id_t = 1, title = utf16 ''a'', completed = False, userId = 1, priority = Low\<rparr>], editingId := Some 1\<rparr>)) = (initial\<lparr>todos := [\<lparr>id_t = 1, title = utf16 ''a'', completed = False, userId = 1, priority = Low\<rparr>], editingId := Some 1\<rparr>) \<and>
   todos (fst (deleteTodo 7 (Resolved 200 Unparsable :: unit fetched) (initial\<lparr>todos := [\<lparr>id_t = 1, title = utf16 ''a'', completed = False, userId = 1, priority = Low\<rparr>], editingId := Some 1\<rparr>))) = todos (initial\<lparr>todos := [\<lparr>id_t = 1, title = utf16 ''a'', completed = False, userId = 1, priority = Low\<rparr>], editingId := Some 1\<rparr>)"
proof -
  have h: "requestFailed (Resolved 404 Unparsable :: unit fetched)"
    by (simp add: ok_def)
  have n: "7 \<notin> set (ids (initial\<lparr>todos := [\<lparr>id_t = 1, title = utf16 ''a'', completed = False, userId = 1, priority = Low\<rparr>], editingId := Some 1\<rparr>))"
    by (simp add: ids_def)
  from h n
    silent_failures [OF h, where x = "\<lparr>id_t = 1, title = utf16 ''a'', completed = False, userId = 1, priority = Low\<rparr>" and s = "(initial\<lparr>todos := [\<lparr>id_t = 1, title = utf16 ''a'', completed = False, userId = 1, priority = Low\<rparr>], editingId := Some 1\<rparr>)" and i = 7
      and b = "(Unparsable :: unit body)" and r' = "(Resolved 200 Unparsable :: unit fetched)"]
  show ?thesis by blast
qed

section \<open>Save Edit and the identifier 0\<close>

text \<open>
  C10. Save Edit sends no request and returns the state as it was when no item is under
  edit and also when the identifier under edit is 0; hence after Begin Edit on an item
  with identifier 0, Save Edit does nothing.
\<close>

theorem saveEdit_zero_id:
  "(editingId s = None \<or> editingId s = Some 0 \<longrightarrow> saveEdit r s = (s, [])) \<and>
   (id_t x = 0 \<longrightarrow> saveEdit r (startEdit x s) = (startEdit x s, []))"
  by (auto simp: saveEdit_def startEdit_def)

text \<open>C10 on the initial state, and after Begin Edit on an item with identifier 0.\<close>

theorem saveEdit_zero_id_witness:
  "(editingId initial = None \<or> editingId initial = Some 0) \<and>
   (editingId (startEdit \<lparr>id_t = 0, title = utf16 ''z'', completed = False, userId = 1, priority = Low\<rparr> initial) = None \<or> editingId (startEdit \<lparr>id_t = 0, title = utf16 ''z'', completed = False, userId = 1, priority = Low\<rparr> initial) = Some 0) \<and>
   id_t \<lparr>id_t = 0, title = utf16 ''z'', completed = False, userId = 1, priority = Low\<rparr> = 0 \<and>
   saveEdit (Resolved 200 Unparsable :: unit fetched) initial = (initial, []) \<and>
   saveEdit (Resolved 200 Unparsable :: unit fetched) (startEdit \<lparr>id_t = 0, title = utf16 ''z'', completed = False, userId = 1, priority = Low\<rparr> initial) = (startEdit \<lparr>id_t = 0, title = utf16 ''z'', completed = False, userId = 1, priority = Low\<rparr> initial, [])"
proof -
  have a: "editingId initial = None \<or> editingId initial = Some 0"
    by (simp add: initial_def)
  have b: "editingId (startEdit \<lparr>id_t = 0, title = utf16 ''z'', completed = False, userId = 1, priority = Low\<rparr> initial) = None \<or> editingId (startEdit \<lparr>id_t = 0, title = utf16 ''z'', completed = False, userId = 1, priority = Low\<rparr> initial) = Some 0"
    by (simp add: startEdit_def)
  have c: "id_t \<lparr>id_t = 0, title = utf16 ''z'', completed = False, userId = 1, priority = Low\<rparr> = 0"
    by simp
  from a b c
    saveEdit_zero_id [of initial "(Resolved 200 Unparsable :: unit fetched)" "\<lparr>id_t = 0, title = utf16 ''z'', completed = False, userId = 1, priority = Low\<rparr>"]
    saveEdit_zero_id [of "startEdit \<lparr>id_t = 0, title = utf16 ''z'', completed = False, userId = 1, priority = Low\<rparr> initial" "(Resolved 200 Unparsable :: unit fetched)" "\<lparr>id_t = 0, title = utf16 ''z'', completed = False, userId = 1, priority = Low\<rparr>"]
  show ?thesis by blast
qed

end
